theory Spec2Isabelle
  imports Complex_Main "HOL-Library.Char_ord" "HOL-Library.List_Lexorder"
begin

section \<open>JSON values\<close>

datatype 'f json =
    JNull
  | JBool bool
  | JInt int
  | JFloat 'f
  | JStr string
  | JArr "'f json list"
  | JObj "(string \<times> 'f json) list"

record 'f pylib =
  md5_hexdigest :: "string \<Rightarrow> string"
  json_loads :: "string \<Rightarrow> 'f json list option"
  float_repr :: "'f \<Rightarrow> string"
  float_is_zero :: "'f \<Rightarrow> bool"
  float_of_str :: "string \<Rightarrow> 'f option"
  float_of_int :: "int \<Rightarrow> 'f option"

definition hex_digit :: "nat \<Rightarrow> char" where
  "hex_digit n = ''0123456789abcdef'' ! (n mod 16)"

definition escape_char :: "char \<Rightarrow> string" where
  "escape_char c =
     (if c = CHR ''\"'' then [CHR 0x5C, CHR ''\"'']
      else if c = CHR 0x5C then [CHR 0x5C, CHR 0x5C]
      else if c = CHR 0x0A then [CHR 0x5C, CHR ''n'']
      else if c = CHR 0x0D then [CHR 0x5C, CHR ''r'']
      else if c = CHR 0x09 then [CHR 0x5C, CHR ''t'']
      else if c = CHR 0x08 then [CHR 0x5C, CHR ''b'']
      else if c = CHR 0x0C then [CHR 0x5C, CHR ''f'']
      else if of_char c < (32::nat)
        then [CHR 0x5C, CHR ''u'', CHR ''0'', CHR ''0'',
              hex_digit (of_char c div 16), hex_digit (of_char c)]
      else [c])"

definition dumps_str :: "string \<Rightarrow> string" where
  "dumps_str s = CHR ''\"'' # concat (map escape_char s) @ [CHR ''\"'']"

fun digits :: "nat \<Rightarrow> string" where
  "digits n = (if n < 10 then [char_of (48 + n)] else digits (n div 10) @ [char_of (48 + n mod 10)])"

definition dumps_int :: "int \<Rightarrow> string" where
  "dumps_int i = (if i < 0 then CHR ''-'' # digits (nat (- i)) else digits (nat i))"

fun join :: "string \<Rightarrow> string list \<Rightarrow> string" where
  "join sep [] = []"
| "join sep [x] = x"
| "join sep (x # y # ys) = x @ sep @ join sep (y # ys)"

fun dumps :: "'f pylib \<Rightarrow> bool \<Rightarrow> 'f json \<Rightarrow> string" where
  "dumps L sk JNull = ''null''"
| "dumps L sk (JBool b) = (if b then ''true'' else ''false'')"
| "dumps L sk (JInt i) = dumps_int i"
| "dumps L sk (JFloat x) = float_repr L x"
| "dumps L sk (JStr s) = dumps_str s"
| "dumps L sk (JArr xs) = ''['' @ join '', '' (map (dumps L sk) xs) @ '']''"
| "dumps L sk (JObj kvs) =
     ''{'' @ join '', ''
        (map (\<lambda>kv. dumps_str (fst kv) @ '': '' @ snd kv)
           ((if sk then sort_key fst else id) (map (\<lambda>kv. (fst kv, dumps L sk (snd kv))) kvs)))
      @ ''}''"

definition get_finding_hash :: "'f pylib \<Rightarrow> 'f json \<Rightarrow> string" where
  "get_finding_hash L finding = md5_hexdigest L (dumps L True finding)"


section \<open>Python operations on JSON values\<close>

datatype error =
    KeyError string
  | TypeError
  | ValueError
  | OverflowError
  | ConnectionError
  | TimeoutError
  | HTTPError int
  | JSONDecodeError
  | IndexError

definition ebind :: "error + 'a \<Rightarrow> ('a \<Rightarrow> error + 'b) \<Rightarrow> error + 'b" where
  "ebind m f = (case m of Inl e \<Rightarrow> Inl e | Inr x \<Rightarrow> f x)"

fun truthy :: "'f pylib \<Rightarrow> 'f json \<Rightarrow> bool" where
  "truthy L JNull = False"
| "truthy L (JBool b) = b"
| "truthy L (JInt i) = (i \<noteq> 0)"
| "truthy L (JFloat x) = (\<not> float_is_zero L x)"
| "truthy L (JStr s) = (s \<noteq> [])"
| "truthy L (JArr xs) = (xs \<noteq> [])"
| "truthy L (JObj kvs) = (kvs \<noteq> [])"

fun subscript :: "'f json \<Rightarrow> string \<Rightarrow> error + 'f json" where
  "subscript (JObj kvs) k = (case map_of kvs k of None \<Rightarrow> Inl (KeyError k) | Some v \<Rightarrow> Inr v)"
| "subscript v k = Inl TypeError"

fun first_item :: "'f json \<Rightarrow> error + 'f json" where
  "first_item (JArr xs) = (case xs of [] \<Rightarrow> Inl IndexError | x # _ \<Rightarrow> Inr x)"
| "first_item (JStr s) = (case s of [] \<Rightarrow> Inl IndexError | c # _ \<Rightarrow> Inr (JStr [c]))"
| "first_item (JObj kvs) = Inl (KeyError ''0'')"
| "first_item v = Inl TypeError"

fun py_iter :: "'f json \<Rightarrow> error + 'f json list" where
  "py_iter (JArr xs) = Inr xs"
| "py_iter (JStr s) = Inr (map (\<lambda>c. JStr [c]) s)"
| "py_iter (JObj kvs) = Inr (map (\<lambda>kv. JStr (fst kv)) kvs)"
| "py_iter v = Inl TypeError"

fun py_float :: "'f pylib \<Rightarrow> 'f json \<Rightarrow> error + 'f" where
  "py_float L (JFloat x) = Inr x"
| "py_float L (JStr s) = (case float_of_str L s of None \<Rightarrow> Inl ValueError | Some x \<Rightarrow> Inr x)"
| "py_float L (JInt i) = (case float_of_int L i of None \<Rightarrow> Inl OverflowError | Some x \<Rightarrow> Inr x)"
| "py_float L (JBool b) =
     (case float_of_int L (if b then 1 else 0) of None \<Rightarrow> Inl OverflowError | Some x \<Rightarrow> Inr x)"
| "py_float L v = Inl TypeError"

definition py_isspace :: "char \<Rightarrow> bool" where
  "py_isspace c = (of_char c \<in> {9, 10, 11, 12, 13, 28, 29, 30, 31, 32 :: nat})"

definition strip :: "string \<Rightarrow> string" where
  "strip s = rev (dropWhile py_isspace (rev (dropWhile py_isspace s)))"

fun re_split :: "(char \<Rightarrow> bool) \<Rightarrow> string \<Rightarrow> string list" where
  "re_split d [] = [[]]"
| "re_split d (c # cs) =
     (if d c then [] # re_split d cs
      else (case re_split d cs of [] \<Rightarrow> [[c]] | p # ps \<Rightarrow> (c # p) # ps))"

section \<open>Checkpoint store and run state\<close>

datatype 'f checkpoint_file = Corrupt | Stored "'f json"

datatype 'f event = SavedCheckpoint string "'f json" | Appended "'f json"

record 'f state =
  checkpoints :: "string \<Rightarrow> 'f checkpoint_file option"
  output_file :: "'f json list"
  llm_calls :: nat
  geo_calls :: nat
  cache_hits :: nat
  cache_misses :: nat
  total_entries :: nat
  trace :: "'f event list"

definition load_checkpoint :: "'f state \<Rightarrow> string \<Rightarrow> 'f json option" where
  "load_checkpoint s finding_hash =
     (case checkpoints s finding_hash of
        None \<Rightarrow> None
      | Some Corrupt \<Rightarrow> None
      | Some (Stored v) \<Rightarrow> Some v)"

definition checkpoint_data :: "'f json \<Rightarrow> 'f json list \<Rightarrow> 'f json" where
  "checkpoint_data original_finding processed_results =
     JObj [(''original'', original_finding), (''processed'', JArr processed_results)]"

definition save_checkpoint :: "'f state \<Rightarrow> string \<Rightarrow> 'f json \<Rightarrow> 'f json list \<Rightarrow> 'f state" where
  "save_checkpoint s finding_hash original_finding processed_results =
     s\<lparr>checkpoints := (checkpoints s)
          (finding_hash \<mapsto> Stored (checkpoint_data original_finding processed_results)),
       trace := trace s @
          [SavedCheckpoint finding_hash (checkpoint_data original_finding processed_results)]\<rparr>"

section \<open>Geocoder client\<close>

datatype 'f http_result =
    NetworkError
  | Timeout
  | Response int "'f json option"

record 'f coords =
  latitude :: "'f option"
  longitude :: "'f option"

definition null_coords :: "'f coords" where
  "null_coords = \<lparr>latitude = None, longitude = None\<rparr>"

definition raise_for_status :: "int \<Rightarrow> error + unit" where
  "raise_for_status status_code =
     (if 400 \<le> status_code \<and> status_code < 600 then Inl (HTTPError status_code) else Inr ())"

definition geocode_try :: "'f pylib \<Rightarrow> 'f http_result \<Rightarrow> error + 'f coords option" where
  "geocode_try L r =
     (case r of
        NetworkError \<Rightarrow> Inl ConnectionError
      | Timeout \<Rightarrow> Inl TimeoutError
      | Response status_code body \<Rightarrow>
          ebind (raise_for_status status_code) (\<lambda>_.
          ebind (case body of None \<Rightarrow> Inl JSONDecodeError | Some v \<Rightarrow> Inr v) (\<lambda>results.
            if truthy L results then
              ebind (first_item results) (\<lambda>r0.
              ebind (subscript r0 ''lat'') (\<lambda>lat_raw.
              ebind (py_float L lat_raw) (\<lambda>lat.
              ebind (first_item results) (\<lambda>r1.
              ebind (subscript r1 ''lon'') (\<lambda>lon_raw.
              ebind (py_float L lon_raw) (\<lambda>lon.
                Inr (Some \<lparr>latitude = Some lat, longitude = Some lon\<rparr>)))))))
            else Inr None)))"

definition get_coordinates :: "'f pylib \<Rightarrow> 'f http_result \<Rightarrow> 'f coords" where
  "get_coordinates L r =
     (case geocode_try L r of
        Inl e \<Rightarrow> null_coords
      | Inr None \<Rightarrow> null_coords
      | Inr (Some c) \<Rightarrow> c)"

section \<open>Record splitter\<close>

definition split_species :: "'f pylib \<Rightarrow> 'f json \<Rightarrow> error + string list" where
  "split_species L species_text =
     (if \<not> truthy L species_text then Inr []
      else (case species_text of
              JStr s \<Rightarrow>
                Inr (filter (\<lambda>a. a \<noteq> [])
                      (map strip (re_split (\<lambda>c. c = CHR '','' \<or> c = CHR ''/'') s)))
            | _ \<Rightarrow> Inl TypeError))"

section \<open>Area decomposer\<close>

datatype llm_result = LlmRaised | LlmContent string

definition re_search_array :: "string \<Rightarrow> string option" where
  "re_search_array content =
     (let t = dropWhile (\<lambda>c. c \<noteq> CHR ''['') content in
      if t = [] then None
      else (let r = rev (dropWhile (\<lambda>c. c \<noteq> CHR '']'') (rev (tl t))) in
            if r = [] then None else Some (CHR ''['' # r)))"

definition fragment :: "'f json \<Rightarrow> 'f json \<Rightarrow> 'f json" where
  "fragment country area = JObj [(''country'', country), (''area'', area)]"

definition extract_areas_with_llm ::
  "'f pylib \<Rightarrow> llm_result \<Rightarrow> 'f json \<Rightarrow> 'f json \<Rightarrow> 'f json list" where
  "extract_areas_with_llm L response country area =
     (case response of
        LlmRaised \<Rightarrow> [fragment country area]
      | LlmContent text \<Rightarrow>
          (case re_search_array (strip text) of
             None \<Rightarrow> [fragment country area]
           | Some json_match \<Rightarrow>
               (case json_loads L json_match of
                  None \<Rightarrow> [fragment country area]
                | Some areas_data \<Rightarrow> areas_data)))"

section \<open>Expansion orchestrator\<close>

record 'f world =
  llm_service :: "nat \<Rightarrow> 'f json \<Rightarrow> 'f json \<Rightarrow> llm_result"
  geo_service :: "nat \<Rightarrow> 'f json \<Rightarrow> 'f json \<Rightarrow> 'f http_result"

definition coord_json :: "'f option \<Rightarrow> 'f json" where
  "coord_json c = (case c of None \<Rightarrow> JNull | Some x \<Rightarrow> JFloat x)"

definition processed_finding ::
  "'f json \<Rightarrow> 'f json \<Rightarrow> 'f json \<Rightarrow> 'f json \<Rightarrow> 'f json \<Rightarrow> 'f coords \<Rightarrow> 'f json \<Rightarrow> 'f json" where
  "processed_finding document_id parasite_species host area_country area_name coords confidence_score =
     JObj [(''document_id'', document_id),
           (''parasite_species'', parasite_species),
           (''host_species'', host),
           (''country'', area_country),
           (''area'', area_name),
           (''latitude'', coord_json (latitude coords)),
           (''longitude'', coord_json (longitude coords)),
           (''confidence_score'', confidence_score)]"

fun areas_loop ::
  "'f pylib \<Rightarrow> 'f world \<Rightarrow> 'f json \<Rightarrow> 'f json \<Rightarrow> 'f json \<Rightarrow> 'f json \<Rightarrow> 'f json list \<Rightarrow>
   nat \<Rightarrow> 'f json list \<Rightarrow> nat \<times> (error + 'f json list)" where
  "areas_loop L W document_id parasite_species confidence_score host [] n new_processed =
     (n, Inr new_processed)"
| "areas_loop L W document_id parasite_species confidence_score host (area_data # rest) n new_processed =
     (case subscript area_data ''country'' of
        Inl e \<Rightarrow> (n, Inl e)
      | Inr area_country \<Rightarrow>
          (case subscript area_data ''area'' of
             Inl e \<Rightarrow> (n, Inl e)
           | Inr area_name \<Rightarrow>
               (let coords = get_coordinates L (geo_service W n area_name area_country)
                in areas_loop L W document_id parasite_species confidence_score host rest (n + 1)
                     (new_processed @
                        [processed_finding document_id parasite_species host area_country
                           area_name coords confidence_score]))))"

fun hosts_loop ::
  "'f pylib \<Rightarrow> 'f world \<Rightarrow> 'f json \<Rightarrow> 'f json \<Rightarrow> 'f json \<Rightarrow> 'f json list \<Rightarrow> 'f json list \<Rightarrow>
   nat \<Rightarrow> 'f json list \<Rightarrow> nat \<times> (error + 'f json list)" where
  "hosts_loop L W document_id parasite_species confidence_score [] areas_data n new_processed =
     (n, Inr new_processed)"
| "hosts_loop L W document_id parasite_species confidence_score (host # hosts) areas_data n new_processed =
     (case areas_loop L W document_id parasite_species confidence_score host areas_data n new_processed of
        (n', Inl e) \<Rightarrow> (n', Inl e)
      | (n', Inr new_processed') \<Rightarrow>
          hosts_loop L W document_id parasite_species confidence_score hosts areas_data n' new_processed')"

definition host_list :: "'f json \<Rightarrow> string list \<Rightarrow> 'f json list" where
  "host_list host_species host_species_list =
     (if host_species_list = [] then [host_species] else map JStr host_species_list)"

definition read_fields ::
  "'f json \<Rightarrow> error + ('f json \<times> 'f json \<times> 'f json \<times> 'f json \<times> 'f json \<times> 'f json)" where
  "read_fields finding =
     ebind (subscript finding ''document_id'') (\<lambda>document_id.
     ebind (subscript finding ''parasite_species'') (\<lambda>parasite_species.
     ebind (subscript finding ''host_species'') (\<lambda>host_species.
     ebind (subscript finding ''country'') (\<lambda>country.
     ebind (subscript finding ''area'') (\<lambda>area.
     ebind (subscript finding ''confidence_score'') (\<lambda>confidence_score.
       Inr (document_id, parasite_species, host_species, country, area, confidence_score)))))))"

definition expand_new ::
  "'f pylib \<Rightarrow> 'f world \<Rightarrow> 'f state \<Rightarrow> string \<Rightarrow> 'f json \<Rightarrow> 'f state \<times> (error + 'f json)" where
  "expand_new L W s finding_hash finding =
     (let s1 = s\<lparr>cache_misses := cache_misses s + 1\<rparr> in
      case read_fields finding of
        Inl e \<Rightarrow> (s1, Inl e)
      | Inr (document_id, parasite_species, host_species, country, area, confidence_score) \<Rightarrow>
          (case split_species L host_species of
             Inl e \<Rightarrow> (s1, Inl e)
           | Inr host_species_list \<Rightarrow>
               (let areas_data =
                      extract_areas_with_llm L (llm_service W (llm_calls s1) country area)
                        country area;
                    s2 = s1\<lparr>llm_calls := llm_calls s1 + 1\<rparr>
                in (case hosts_loop L W document_id parasite_species confidence_score
                          (host_list host_species host_species_list) areas_data (geo_calls s2) [] of
                      (n, Inl e) \<Rightarrow> (s2\<lparr>geo_calls := n\<rparr>, Inl e)
                    | (n, Inr new_processed) \<Rightarrow>
                        (save_checkpoint (s2\<lparr>geo_calls := n\<rparr>) finding_hash finding new_processed,
                         Inr (JArr new_processed))))))"

definition lookup_or_expand ::
  "'f pylib \<Rightarrow> 'f world \<Rightarrow> 'f state \<Rightarrow> 'f json \<Rightarrow> 'f state \<times> (error + 'f json)" where
  "lookup_or_expand L W s finding =
     (let finding_hash = get_finding_hash L finding in
      case load_checkpoint s finding_hash of
        None \<Rightarrow> expand_new L W s finding_hash finding
      | Some cached_results \<Rightarrow>
          if truthy L cached_results then
            (case subscript cached_results ''processed'' of
               Inl e \<Rightarrow> (s, Inl e)
             | Inr new_processed \<Rightarrow> (s\<lparr>cache_hits := cache_hits s + 1\<rparr>, Inr new_processed))
          else expand_new L W s finding_hash finding)"

definition append_output :: "'f state \<Rightarrow> 'f json list \<Rightarrow> 'f state" where
  "append_output s entries =
     s\<lparr>output_file := output_file s @ entries,
       total_entries := total_entries s + length entries,
       trace := trace s @ map Appended entries\<rparr>"

definition process_finding ::
  "'f pylib \<Rightarrow> 'f world \<Rightarrow> 'f state \<Rightarrow> 'f json \<Rightarrow> 'f state \<times> error option" where
  "process_finding L W s finding =
     (case lookup_or_expand L W s finding of
        (s1, Inl e) \<Rightarrow> (s1, Some e)
      | (s1, Inr new_processed) \<Rightarrow>
          (case py_iter new_processed of
             Inl e \<Rightarrow> (s1, Some e)
           | Inr entries \<Rightarrow> (append_output s1 entries, None)))"

fun run :: "'f pylib \<Rightarrow> 'f world \<Rightarrow> 'f state \<Rightarrow> 'f json list \<Rightarrow> 'f state \<times> error option" where
  "run L W s [] = (s, None)"
| "run L W s (finding # findings) =
     (case process_finding L W s finding of
        (s', Some e) \<Rightarrow> (s', Some e)
      | (s', None) \<Rightarrow> run L W s' findings)"

definition fresh_run :: "'f state \<Rightarrow> 'f state" where
  "fresh_run s = s\<lparr>cache_hits := 0, cache_misses := 0, total_entries := 0\<rparr>"

section \<open>Notions used to state the properties\<close>

definition well_formed_fragment :: "'f json \<Rightarrow> bool" where
  "well_formed_fragment a =
     (case subscript a ''country'' of
        Inl e \<Rightarrow> False
      | Inr c \<Rightarrow> (case subscript a ''area'' of Inl e \<Rightarrow> False | Inr n \<Rightarrow> True))"

definition fragment_country :: "'f json \<Rightarrow> 'f json" where
  "fragment_country a = (case subscript a ''country'' of Inl e \<Rightarrow> JNull | Inr c \<Rightarrow> c)"

definition fragment_area :: "'f json \<Rightarrow> 'f json" where
  "fragment_area a = (case subscript a ''area'' of Inl e \<Rightarrow> JNull | Inr n \<Rightarrow> n)"

definition enriched ::
  "'f pylib \<Rightarrow> 'f world \<Rightarrow> 'f json \<Rightarrow> 'f json \<Rightarrow> 'f json \<Rightarrow> nat \<Rightarrow> 'f json \<times> 'f json \<Rightarrow> 'f json" where
  "enriched L W document_id parasite_species confidence_score k pair =
     processed_finding document_id parasite_species (fst pair)
       (fragment_country (snd pair)) (fragment_area (snd pair))
       (get_coordinates L
          (geo_service W k (fragment_area (snd pair)) (fragment_country (snd pair))))
       confidence_score"

definition is_cached :: "'f pylib \<Rightarrow> 'f state \<Rightarrow> 'f json \<Rightarrow> bool" where
  "is_cached L s finding =
     (case load_checkpoint s (get_finding_hash L finding) of
        None \<Rightarrow> False
      | Some cached_results \<Rightarrow> truthy L cached_results)"

definition cached_entries :: "'f pylib \<Rightarrow> 'f state \<Rightarrow> 'f json \<Rightarrow> 'f json list option" where
  "cached_entries L s finding =
     (case load_checkpoint s (get_finding_hash L finding) of
        None \<Rightarrow> None
      | Some cached_results \<Rightarrow>
          if truthy L cached_results then
            (case subscript cached_results ''processed'' of
               Inl e \<Rightarrow> None
             | Inr new_processed \<Rightarrow>
                 (case py_iter new_processed of Inl e \<Rightarrow> None | Inr entries \<Rightarrow> Some entries))
          else None)"

definition same_core :: "'f state \<Rightarrow> 'f state \<Rightarrow> bool" where
  "same_core s t =
     (checkpoints s = checkpoints t \<and> llm_calls s = llm_calls t \<and> geo_calls s = geo_calls t)"

section \<open>Concrete inputs\<close>

text \<open>
  A library environment for evaluating the model on concrete inputs. The digest is a
  stand-in (the serialisation itself), the decoder is given on the texts used below,
  where it agrees with \<^verbatim>\<open>json.loads\<close>, and floats are represented by rationals.
\<close>

definition two_fragments_text :: string where
  \<open>two_fragments_text =
     ''[{"country": "France", "area": "Arcachon Bay"}, {"country": "France", "area": "Marennes-Oleron"}]''\<close>

definition two_fragments :: "rat json list" where
  "two_fragments =
     [JObj [(''country'', JStr ''France''), (''area'', JStr ''Arcachon Bay'')],
      JObj [(''country'', JStr ''France''), (''area'', JStr ''Marennes-Oleron'')]]"

definition no_country_text :: string where
  \<open>no_country_text = ''[{"area": "Arcachon Bay"}]''\<close>

definition example_lib :: "rat pylib" where
  "example_lib =
     \<lparr>md5_hexdigest = (\<lambda>s. s),
      json_loads = (\<lambda>s. if s = ''[]'' then Some []
                        else if s = two_fragments_text then Some two_fragments
                        else if s = no_country_text
                          then Some [JObj [(''area'', JStr ''Arcachon Bay'')]]
                        else None),
      float_repr = (\<lambda>x. if x = 0 then ''0.0'' else ''1.0''),
      float_is_zero = (\<lambda>x. x = 0),
      float_of_str = (\<lambda>s. if s = ''44.66'' then Some (2233 / 50)
                          else if s = ''-1.17'' then Some (- 117 / 100)
                          else None),
      float_of_int = (\<lambda>i. Some (of_int i))\<rparr>"

definition example_fields :: "(string \<times> rat json) list" where
  "example_fields =
     [(''document_id'', JInt 7),
      (''parasite_species'', JStr ''Bonamia ostreae''),
      (''host_species'', JStr ''A, B''),
      (''country'', JStr ''France''),
      (''area'', JStr ''Arcachon Bay and Marennes-Oleron''),
      (''confidence_score'', JStr ''High'')]"

definition example_fields_reordered :: "(string \<times> rat json) list" where
  "example_fields_reordered =
     [(''confidence_score'', JStr ''High''),
      (''area'', JStr ''Arcachon Bay and Marennes-Oleron''),
      (''country'', JStr ''France''),
      (''host_species'', JStr ''A, B''),
      (''parasite_species'', JStr ''Bonamia ostreae''),
      (''document_id'', JInt 7)]"

definition example_finding :: "rat json" where
  "example_finding = JObj example_fields"

section \<open>Determinism of the checkpoint key\<close>

lemma sort_key_fst_unique:
  fixes xs ys :: "(string \<times> 'b) list"
  assumes "distinct (map fst xs)" "distinct (map fst ys)" "map_of xs = map_of ys"
  shows "sort_key fst xs = sort_key fst ys"
proof -
  have s: "set xs = set ys"
    using assms by (simp add: map_of_inject_set)
  have d: "distinct (map fst (sort_key fst zs))"
    if "distinct (map fst zs)" for zs :: "(string \<times> 'b) list"
    using that by (simp add: distinct_map)
  have inj: "inj_on fst (set (sort_key fst xs) \<union> set (sort_key fst ys))"
    using assms(1) s by (simp add: distinct_map)
  show ?thesis
    by (rule map_sorted_distinct_set_unique [OF inj]) (simp_all add: d assms s)
qed

lemma map_of_dumps:
  "map_of (map (\<lambda>kv. (fst kv, dumps L sk (snd kv))) zs) k = map_option (dumps L sk) (map_of zs k)"
  by (induction zs) auto

lemma dumps_sorted_order_independent:
  assumes "distinct (map fst kvs)" "distinct (map fst kvs')" "map_of kvs = map_of kvs'"
  shows "dumps L True (JObj kvs) = dumps L True (JObj kvs')"
proof -
  let ?f = "\<lambda>kv. (fst kv, dumps L True (snd kv))"
  have "sort_key fst (map ?f kvs) = sort_key fst (map ?f kvs')"
  proof (rule sort_key_fst_unique)
    show "distinct (map fst (map ?f kvs))" using assms(1) by (simp add: comp_def)
    show "distinct (map fst (map ?f kvs'))" using assms(2) by (simp add: comp_def)
    show "map_of (map ?f kvs) = map_of (map ?f kvs')"
      by (rule ext) (simp add: map_of_dumps assms(3))
  qed
  then show ?thesis by simp
qed

lemma hash_order_independent:
  assumes "distinct (map fst kvs)" "distinct (map fst kvs')" "map_of kvs = map_of kvs'"
  shows "get_finding_hash L (JObj kvs) = get_finding_hash L (JObj kvs')"
  by (simp only: get_finding_hash_def dumps_sorted_order_independent [OF assms])

text \<open>
  Claim C2. Two findings that hold the same value under every field name, whatever the
  order in which the fields were inserted, have the same digest. The digest is computed
  from the finding alone: \<^const>\<open>get_finding_hash\<close> takes no run state, clock or position.
\<close>

theorem get_finding_hash_field_order:
  assumes "distinct (map fst kvs)" and "distinct (map fst kvs')"
    and "map_of kvs = map_of kvs'"
  shows "get_finding_hash L (JObj kvs) = get_finding_hash L (JObj kvs')"
  using assms by (rule hash_order_independent)

theorem get_finding_hash_field_order_witness:
  "distinct (map fst example_fields) \<and> distinct (map fst example_fields_reordered) \<and>
   map_of example_fields = map_of example_fields_reordered \<and>
   example_fields \<noteq> example_fields_reordered \<and>
   get_finding_hash example_lib (JObj example_fields) =
   get_finding_hash example_lib (JObj example_fields_reordered)"
proof -
  have d: "distinct (map fst example_fields)"
    and d': "distinct (map fst example_fields_reordered)"
    by (simp_all add: example_fields_def example_fields_reordered_def)
  have m: "map_of example_fields = map_of example_fields_reordered"
    by (simp add: example_fields_def example_fields_reordered_def fun_eq_iff)
  have n: "example_fields \<noteq> example_fields_reordered"
    by (simp add: example_fields_def example_fields_reordered_def)
  show ?thesis
    using d d' m n get_finding_hash_field_order [OF d d' m, of example_lib] by simp
qed

end
